theory Spec2Isabelle
  imports Main "HOL-Library.Sublist" "HOL-Library.AList"
begin

section \<open>Strings\<close>

text \<open>
  A JavaScript string is a sequence of code units.  The model uses \<^typ>\<open>string\<close>, reading
  each \<^typ>\<open>char\<close> as the code unit of the same number (U+0000 to U+00FF); on that range
  the functions below are the ECMAScript ones.
\<close>

text \<open>The code units that \<^verbatim>\<open>String.prototype.trim\<close> strips (WhiteSpace and LineTerminator):
  TAB, LF, VT, FF, CR, SPACE and NO-BREAK SPACE.\<close>

definition isWhiteSpace :: "char \<Rightarrow> bool" where
  "isWhiteSpace c = (c \<in> set [CHR 0x09, CHR 0x0A, CHR 0x0B, CHR 0x0C, CHR 0x0D, CHR 0x20, CHR 0xA0])"

definition trim :: "string \<Rightarrow> string" where
  "trim s = rev (dropWhile isWhiteSpace (rev (dropWhile isWhiteSpace s)))"

text \<open>\<^verbatim>\<open>s.startsWith(p)\<close>\<close>

fun startsWith :: "string \<Rightarrow> string \<Rightarrow> bool" where
  "startsWith s [] = True"
| "startsWith [] (p # ps) = False"
| "startsWith (c # cs) (p # ps) = (c = p \<and> startsWith cs ps)"

text \<open>\<^verbatim>\<open>s.includes(q)\<close>: \<open>q\<close> occurs in \<open>s\<close> at some position.\<close>

fun includes_str :: "string \<Rightarrow> string \<Rightarrow> bool" where
  "includes_str [] q = (q = [])"
| "includes_str (c # cs) q = (startsWith (c # cs) q \<or> includes_str cs q)"

text \<open>The character class \<^verbatim>\<open>[0-9]\<close>, and \<^verbatim>\<open>s.match(/[^0-9]/)\<close> being non-null.\<close>

definition isDigit :: "char \<Rightarrow> bool" where
  "isDigit c = (c \<in> set ''0123456789'')"

definition matchNonDigit :: "string \<Rightarrow> bool" where
  "matchNonDigit s = list_ex (\<lambda>c. \<not> isDigit c) s"

text \<open>\<^verbatim>\<open>s.match('image.*')\<close> being non-null: the pattern is not anchored and \<^verbatim>\<open>.*\<close> matches
  the empty string, so it matches exactly where \<^verbatim>\<open>image\<close> occurs.\<close>

definition matchImage :: "string \<Rightarrow> bool" where
  "matchImage s = includes_str s ''image''"

text \<open>\<^verbatim>\<open>s.toLowerCase()\<close>: the letters A-Z and the Latin-1 capitals U+00C0 to U+00DE
  (without the multiplication sign U+00D7) move up by 32.\<close>

definition toLowerChar :: "char \<Rightarrow> char" where
  "toLowerChar c =
     (let n = (of_char c :: nat)
      in if (65 \<le> n \<and> n \<le> 90) \<or> (192 \<le> n \<and> n \<le> 222 \<and> n \<noteq> 215)
         then char_of (n + 32) else c)"

definition toLowerCase :: "string \<Rightarrow> string" where
  "toLowerCase s = map toLowerChar s"

text \<open>The decimal text of a natural number, as a template literal renders it.\<close>

fun string_of_nat :: "nat \<Rightarrow> string" where
  "string_of_nat n =
     (if n div 10 = 0 then [] else string_of_nat (n div 10)) @ [''0123456789'' ! (n mod 10)]"

section \<open>JavaScript values\<close>

text \<open>
  The values that travel through the service layer.  An object is an association list in
  insertion order; the value of a property is that of its first entry (\<^const>\<open>map_of\<close>).
  Numbers are the integers (ids, counts); other numbers are not modelled.
\<close>

datatype jsval =
    JUndefined
  | JNull
  | JBool bool
  | JNum int
  | JStr string
  | JArr "jsval list"
  | JObj "(string \<times> jsval) list"

type_synonym jsobj = "(string \<times> jsval) list"

text \<open>Reading a property: an absent one reads as \<^verbatim>\<open>undefined\<close>.\<close>

definition getProp :: "jsobj \<Rightarrow> string \<Rightarrow> jsval" where
  "getProp obj k = (case map_of obj k of Some v \<Rightarrow> v | None \<Rightarrow> JUndefined)"

text \<open>Reading a property of any value the service meets: arrays have no named property of
  the names used here.\<close>

fun getMember :: "jsval \<Rightarrow> string \<Rightarrow> jsval" where
  "getMember (JObj obj) k = getProp obj k"
| "getMember v k = JUndefined"

fun truthy :: "jsval \<Rightarrow> bool" where
  "truthy JUndefined = False"
| "truthy JNull = False"
| "truthy (JBool b) = b"
| "truthy (JNum n) = (n \<noteq> 0)"
| "truthy (JStr s) = (s \<noteq> [])"
| "truthy (JArr xs) = True"
| "truthy (JObj obj) = True"

fun typeof :: "jsval \<Rightarrow> string" where
  "typeof JUndefined = ''undefined''"
| "typeof JNull = ''object''"
| "typeof (JBool b) = ''boolean''"
| "typeof (JNum n) = ''number''"
| "typeof (JStr s) = ''string''"
| "typeof (JArr xs) = ''object''"
| "typeof (JObj obj) = ''object''"

text \<open>
  \<^verbatim>\<open>JSON.parse(JSON.stringify(v))\<close>, the deep copy of \<^verbatim>\<open>createUser\<close>: a property whose value is
  \<^verbatim>\<open>undefined\<close> is skipped (and no later entry of the list may stand in for it), an
  \<^verbatim>\<open>undefined\<close> array element becomes \<^verbatim>\<open>null\<close>.
\<close>

fun json_copy :: "jsval \<Rightarrow> jsval"
  and json_copy_elems :: "jsval list \<Rightarrow> jsval list"
  and json_copy_props :: "jsobj \<Rightarrow> jsobj" where
  "json_copy JUndefined = JUndefined"
| "json_copy JNull = JNull"
| "json_copy (JBool b) = JBool b"
| "json_copy (JNum n) = JNum n"
| "json_copy (JStr s) = JStr s"
| "json_copy (JArr xs) = JArr (json_copy_elems xs)"
| "json_copy (JObj obj) = JObj (json_copy_props obj)"
| "json_copy_elems [] = []"
| "json_copy_elems (x # xs) =
     (if x = JUndefined then JNull else json_copy x) # json_copy_elems xs"
| "json_copy_props [] = []"
| "json_copy_props (kv # obj) =
     (if snd kv = JUndefined then AList.delete (fst kv) (json_copy_props obj)
      else (fst kv, json_copy (snd kv)) # json_copy_props obj)"

section \<open>Configuration and transport\<close>

text \<open>\<^verbatim>\<open>API_CONFIG.BASE_URL\<close> and the endpoints the user service calls.\<close>

definition BASE_URL :: string where
  "BASE_URL = ''https://8015b5dbc0724d38882ac90397c27649.weavy.io''"

definition USERS_BASE :: string where
  "USERS_BASE = BASE_URL @ ''/api/users''"

definition USERS_BY_ID :: "string \<Rightarrow> string" where
  "USERS_BY_ID userId = BASE_URL @ ''/api/users/'' @ userId"

datatype http_method = GET | POST | PUT | PATCH | DELETE

text \<open>A request as \<^verbatim>\<open>fetchWithConfig\<close> receives it; \<open>body\<close> is the value handed to
  \<^verbatim>\<open>JSON.stringify\<close>.\<close>

record request =
  req_method :: http_method
  url :: string
  body :: "jsval option"

text \<open>
  The network is a parameter: \<^verbatim>\<open>fetchWithConfig\<close> either returns the decoded response or
  throws an \<^verbatim>\<open>Error\<close> with a message (\<open>Inl\<close>).  A service call returns the requests it
  issued together with its outcome.
\<close>

type_synonym transport = "request \<Rightarrow> string + jsval"

type_synonym 'a outcome = "request list \<times> (string + 'a)"

definition ApiService_get :: "transport \<Rightarrow> string \<Rightarrow> jsval outcome" where
  "ApiService_get net u =
     (let r = \<lparr>req_method = GET, url = u, body = None\<rparr> in ([r], net r))"

definition ApiService_post :: "transport \<Rightarrow> string \<Rightarrow> jsval \<Rightarrow> jsval outcome" where
  "ApiService_post net u data =
     (let formattedUrl = (if startsWith u ''http'' then u else BASE_URL @ u);
          r = \<lparr>req_method = POST, url = formattedUrl, body = Some data\<rparr>
      in ([r], net r))"

definition ApiService_put :: "transport \<Rightarrow> string \<Rightarrow> jsval \<Rightarrow> jsval outcome" where
  "ApiService_put net u data =
     (let r = \<lparr>req_method = PUT, url = u, body = Some data\<rparr> in ([r], net r))"

definition ApiService_patch :: "transport \<Rightarrow> string \<Rightarrow> jsval \<Rightarrow> jsval outcome" where
  "ApiService_patch net u data =
     (let r = \<lparr>req_method = PATCH, url = u, body = Some data\<rparr> in ([r], net r))"

section \<open>The user service\<close>

text \<open>
  \<^verbatim>\<open>getAllUsers\<close>: \<^verbatim>\<open>response.data || []\<close>.  Reading \<^verbatim>\<open>data\<close> of \<^verbatim>\<open>null\<close> or
  \<^verbatim>\<open>undefined\<close> throws a TypeError, whose message is left to the engine.
\<close>

definition TYPE_ERROR :: string where
  "TYPE_ERROR = ''TypeError''"

definition getAllUsers_url :: "nat option \<Rightarrow> string" where
  "getAllUsers_url take_opt =
     (case take_opt of
        Some n \<Rightarrow> if n \<noteq> 0 then USERS_BASE @ ''?take='' @ string_of_nat n else USERS_BASE
      | None \<Rightarrow> USERS_BASE)"

definition getAllUsers :: "transport \<Rightarrow> nat option \<Rightarrow> jsval outcome" where
  "getAllUsers net take_opt =
     (let (reqs, res) = ApiService_get net (getAllUsers_url take_opt)
      in case res of
           Inl msg \<Rightarrow> (reqs, Inl msg)
         | Inr response \<Rightarrow>
             if response = JNull \<or> response = JUndefined then (reqs, Inl TYPE_ERROR)
             else let d = getMember response ''data''
                  in (reqs, Inr (if truthy d then d else JArr [])))"

text \<open>
  \<^verbatim>\<open>createUser\<close>, lines 142 to 171: the four steps applied to the copy
  \<^verbatim>\<open>userDataToSend\<close>.  Assignment to a property is \<^const>\<open>AList.update\<close>, \<^verbatim>\<open>delete\<close> is
  \<^const>\<open>AList.delete\<close>.  \<^verbatim>\<open>JSON.parse\<close> is the parameter \<open>parse\<close>: \<open>None\<close> where it throws.
\<close>

definition reduceDirectory :: "jsobj \<Rightarrow> jsobj" where
  "reduceDirectory d =
     (let dir = getProp d ''directory''
      in if truthy dir then
           (if typeof dir = ''object''
            then AList.update ''directory'' (getMember dir ''name'') d
            else d)
         else d)"

definition parseMetadata :: "(string \<Rightarrow> jsval option) \<Rightarrow> jsobj \<Rightarrow> jsobj" where
  "parseMetadata parse d =
     (let m = getProp d ''metadata''
      in if truthy m \<and> typeof m = ''string'' then
           (case m of
              JStr s \<Rightarrow>
                (case parse s of
                   Some v \<Rightarrow> AList.update ''metadata'' v d
                 | None \<Rightarrow> AList.delete ''metadata'' d)
            | _ \<Rightarrow> d)
         else d)"

definition checkPicture :: "jsobj \<Rightarrow> jsobj" where
  "checkPicture d =
     (let pic = getProp d ''picture''
      in if truthy pic then
           (if typeof pic = ''string'' then
              (case pic of
                 JStr s \<Rightarrow>
                   if startsWith s ''data:image'' then d
                   else if \<not> startsWith s ''http'' then AList.delete ''picture'' d
                   else d
               | _ \<Rightarrow> d)
            else d)
         else d)"

definition isEmptyValue :: "jsval \<Rightarrow> bool" where
  "isEmptyValue v = (v = JStr [] \<or> v = JNull \<or> v = JUndefined)"

text \<open>\<^verbatim>\<open>Object.keys(userDataToSend).forEach(key => ...)\<close>: the keys are taken once, then
  visited in order.\<close>

definition removeEmptyStep :: "string \<Rightarrow> jsobj \<Rightarrow> jsobj" where
  "removeEmptyStep key d = (if isEmptyValue (getProp d key) then AList.delete key d else d)"

definition removeEmpty :: "jsobj \<Rightarrow> jsobj" where
  "removeEmpty d = fold removeEmptyStep (map fst d) d"

definition userDataToSend :: "(string \<Rightarrow> jsval option) \<Rightarrow> jsobj \<Rightarrow> jsobj" where
  "userDataToSend parse userData =
     removeEmpty (checkPicture (parseMetadata parse (reduceDirectory (json_copy_props userData))))"

definition createUser :: "(string \<Rightarrow> jsval option) \<Rightarrow> transport \<Rightarrow> jsobj \<Rightarrow> jsval outcome" where
  "createUser parse net userData =
     (let toSend = userDataToSend parse userData
      in if USERS_BASE = []
         then ([], Inl (''Failed to create user: '' @ ''Invalid API endpoint for user creation''))
         else (let (reqs, res) = ApiService_post net USERS_BASE (JObj toSend)
               in case res of
                    Inl msg \<Rightarrow> (reqs, Inl (''Failed to create user: '' @ msg))
                  | Inr response \<Rightarrow> (reqs, Inr response)))"

text \<open>\<^verbatim>\<open>updateUser\<close> and \<^verbatim>\<open>patchUser\<close>: a non-empty string directory is wrapped into an
  object with the one property \<^verbatim>\<open>name\<close>; the data are sent as they are otherwise.\<close>

definition wrapDirectory :: "jsobj \<Rightarrow> jsobj" where
  "wrapDirectory userData =
     (let dir = getProp userData ''directory''
      in if typeof dir = ''string'' \<and> truthy dir
         then AList.update ''directory'' (JObj [(''name'', dir)]) userData
         else userData)"

definition updateUser :: "transport \<Rightarrow> string \<Rightarrow> jsobj \<Rightarrow> jsval outcome" where
  "updateUser net userId userData =
     ApiService_put net (USERS_BY_ID userId) (JObj (wrapDirectory userData))"

definition patchUser :: "transport \<Rightarrow> string \<Rightarrow> jsobj \<Rightarrow> jsval outcome" where
  "patchUser net userId userData =
     ApiService_patch net (USERS_BY_ID userId) (JObj (wrapDirectory userData))"

section \<open>The creation form\<close>

record UserFormData =
  uid :: string
  name :: "string option"
  given_name :: "string option"
  middle_name :: "string option"
  family_name :: "string option"
  nickname :: "string option"
  email :: "string option"
  phone_number :: "string option"
  comment :: "string option"
  picture :: "string option"
  directory :: "string option"
  metadata :: "jsobj option"
  tags :: "string list option"

definition initialFormState :: UserFormData where
  "initialFormState =
     \<lparr>uid = '''', name = Some '''', given_name = Some '''', middle_name = Some '''',
      family_name = Some '''', nickname = Some '''', email = Some '''', phone_number = Some '''',
      comment = Some '''', picture = Some '''', directory = Some '''', metadata = Some [],
      tags = Some []\<rparr>"

text \<open>The state of the component \<^verbatim>\<open>UserCreationForm\<close>.\<close>

record FormState =
  formData :: UserFormData
  metadataKey :: string
  metadataValue :: string
  tag :: string
  isLoading :: bool
  error :: "string option"
  success :: bool
  imagePreview :: "string option"

text \<open>
  \<^verbatim>\<open>validateForm\<close> sets the error message and returns \<^verbatim>\<open>false\<close> at the first rule that
  fails; the model returns the rule, \<open>None\<close> where the source returns \<^verbatim>\<open>true\<close>.
\<close>

datatype validation_error = MissingUid | UidAllDigits | UidHasWhitespace | InvalidEmail

fun error_message :: "validation_error \<Rightarrow> string" where
  "error_message MissingUid = ''User ID is required''"
| "error_message UidAllDigits = ''User ID must contain at least one non-digit character''"
| "error_message UidHasWhitespace = ''User ID cannot contain whitespace''"
| "error_message InvalidEmail = ''Please enter a valid email address''"

definition validateForm :: "UserFormData \<Rightarrow> validation_error option" where
  "validateForm fd =
     (if uid fd = '''' \<or> trim (uid fd) = '''' then Some MissingUid
      else if \<not> matchNonDigit (uid fd) then Some UidAllDigits
      else if includes_str (uid fd) '' '' then Some UidHasWhitespace
      else if (case email fd of Some e \<Rightarrow> e \<noteq> '''' \<and> \<not> includes_str e ''@'' | None \<Rightarrow> False)
      then Some InvalidEmail
      else None)"

text \<open>\<^verbatim>\<open>if (formData.k && formData.k.trim()) cleanedData.k = formData.k.trim()\<close>\<close>

definition textField :: "string \<Rightarrow> string option \<Rightarrow> jsobj" where
  "textField k field =
     (case field of
        Some s \<Rightarrow> if s \<noteq> '''' \<and> trim s \<noteq> '''' then [(k, JStr (trim s))] else []
      | None \<Rightarrow> [])"

text \<open>\<^verbatim>\<open>cleanedData\<close> of \<^verbatim>\<open>handleSubmit\<close>, its properties in the order of assignment.\<close>

definition cleanedData :: "UserFormData \<Rightarrow> jsobj" where
  "cleanedData fd =
     [(''uid'', JStr (trim (uid fd)))]
     @ textField ''name'' (name fd)
     @ textField ''given_name'' (given_name fd)
     @ textField ''middle_name'' (middle_name fd)
     @ textField ''family_name'' (family_name fd)
     @ textField ''nickname'' (nickname fd)
     @ textField ''email'' (email fd)
     @ textField ''phone_number'' (phone_number fd)
     @ textField ''comment'' (comment fd)
     @ textField ''directory'' (directory fd)
     @ textField ''picture'' (picture fd)
     @ (case tags fd of
          Some ts \<Rightarrow> if length ts > 0 then [(''tags'', JArr (map JStr ts))] else []
        | None \<Rightarrow> [])
     @ (case metadata fd of
          Some m \<Rightarrow> if length (map fst m) > 0 then [(''metadata'', JObj m)] else []
        | None \<Rightarrow> [])"

text \<open>The rule of the specification for a free-text field: trimmed, and left out when
  nothing remains.\<close>

definition trimmedOrOmitted :: "string option \<Rightarrow> jsval option" where
  "trimmedOrOmitted field =
     (case field of
        Some s \<Rightarrow> if trim s = [] then None else Some (JStr (trim s))
      | None \<Rightarrow> None)"

text \<open>
  \<^verbatim>\<open>handleSubmit\<close>: the new state, the requests issued, and the user handed to the
  \<^verbatim>\<open>onUserCreated\<close> callback of the parent (if one was created).
\<close>

definition handleSubmit ::
  "(string \<Rightarrow> jsval option) \<Rightarrow> transport \<Rightarrow> FormState \<Rightarrow> FormState \<times> request list \<times> jsval option" where
  "handleSubmit parse net st =
     (let st1 = st\<lparr>error := None\<rparr>
      in case validateForm (formData st1) of
           Some e \<Rightarrow> (st1\<lparr>error := Some (error_message e)\<rparr>, [], None)
         | None \<Rightarrow>
             (let (reqs, res) = createUser parse net (cleanedData (formData st1))
              in case res of
                   Inr response \<Rightarrow>
                     (st1\<lparr>success := True, formData := initialFormState,
                          imagePreview := None, isLoading := False\<rparr>,
                      reqs, Some response)
                 | Inl msg \<Rightarrow>
                     (st1\<lparr>error := Some msg, isLoading := False\<rparr>, reqs, None)))"

text \<open>
  \<^verbatim>\<open>handleImageUpload\<close>: \<open>fileOpt\<close> is \<^verbatim>\<open>e.target.files?.[0]\<close>; \<open>readResult\<close> is what the
  \<^verbatim>\<open>FileReader\<close> delivers, the data URL on load and \<open>None\<close> on error.
\<close>

record File =
  file_type :: string
  file_size :: nat

definition handleImageUpload :: "FormState \<Rightarrow> File option \<Rightarrow> string option \<Rightarrow> FormState" where
  "handleImageUpload st fileOpt readResult =
     (case fileOpt of
        None \<Rightarrow> st
      | Some file \<Rightarrow>
          if \<not> matchImage (file_type file)
          then st\<lparr>error := Some ''Please select an image file''\<rparr>
          else if file_size file > 5 * 1024 * 1024
          then st\<lparr>error := Some ''Image size should be less than 5MB''\<rparr>
          else (case readResult of
                  Some base64String \<Rightarrow>
                    st\<lparr>imagePreview := Some base64String,
                       formData := (formData st)\<lparr>picture := Some base64String\<rparr>\<rparr>
                | None \<Rightarrow> st\<lparr>error := Some ''Failed to read the image file''\<rparr>))"

section \<open>The list view\<close>

text \<open>The fields of \<^verbatim>\<open>User\<close> that the search reads; the others are the extension of the
  record.\<close>

record User =
  user_uid :: string
  user_name :: "string option"
  user_email :: "string option"

definition matchesSearch :: "string \<Rightarrow> 'a User_scheme \<Rightarrow> bool" where
  "matchesSearch searchTerm user =
     (let searchString = toLowerCase searchTerm
      in includes_str (toLowerCase (user_uid user)) searchString
         \<or> (case user_name user of Some n \<Rightarrow> includes_str (toLowerCase n) searchString | None \<Rightarrow> False)
         \<or> (case user_email user of Some e \<Rightarrow> includes_str (toLowerCase e) searchString | None \<Rightarrow> False))"

definition filteredUsers :: "'a User_scheme list \<Rightarrow> string \<Rightarrow> 'a User_scheme list" where
  "filteredUsers users searchTerm = filter (matchesSearch searchTerm) users"

section \<open>Sample environments\<close>

text \<open>The state in which the component starts (the initial values of its \<^verbatim>\<open>useState\<close>
  hooks).\<close>

definition initialState :: FormState where
  "initialState =
     \<lparr>formData = initialFormState, metadataKey = '''', metadataValue = '''', tag = '''',
      isLoading = False, error = None, success = False, imagePreview = None\<rparr>"

text \<open>A network on which every request is answered with HTTP 204, for which
  \<^verbatim>\<open>fetchWithConfig\<close> returns the empty object.\<close>

definition net_no_content :: transport where
  "net_no_content r = Inr (JObj [])"

text \<open>A parser that agrees with \<^verbatim>\<open>JSON.parse\<close> on the texts \<^verbatim>\<open>{}\<close> and \<^verbatim>\<open>null\<close> and on
  every text that is not JSON; it is applied to such texts only.\<close>

definition parse_sample :: "string \<Rightarrow> jsval option" where
  "parse_sample s =
     (if s = ''{}'' then Some (JObj []) else if s = ''null'' then Some JNull else None)"

section \<open>Facts about strings\<close>

lemma startsWith_prefix: "startsWith s p = prefix p s"
  by (induction s p rule: startsWith.induct) auto

lemma includes_str_sublist: "includes_str s q = sublist q s"
proof (induction s)
  case Nil
  then show ?case by simp
next
  case (Cons c cs)
  then show ?case
    by (simp add: startsWith_prefix sublist_Cons_right)
qed

lemma includes_str_single: "includes_str s [c] = (c \<in> set s)"
  by (induction s) auto

lemma includes_str_Nil: "includes_str s []"
  by (cases s) auto

lemma all_dropWhile: "(\<forall>x\<in>set (dropWhile P s). P x) = (\<forall>x\<in>set s. P x)"
  by (induction s) auto

lemma trim_Nil_iff: "(trim s = []) = (\<forall>c\<in>set s. isWhiteSpace c)"
  by (simp add: trim_def all_dropWhile)

lemma last_dropWhile_eq: "dropWhile P xs \<noteq> [] \<Longrightarrow> last (dropWhile P xs) = last xs"
  by (induction xs) (auto split: if_splits)

lemma dropWhile_fix: "xs = [] \<or> \<not> P (hd xs) \<Longrightarrow> dropWhile P xs = xs"
  by (cases xs) auto

lemma trim_idem: "trim (trim s) = trim s"
proof -
  define t where "t = dropWhile isWhiteSpace s"
  define u where "u = dropWhile isWhiteSpace (rev t)"
  have ht: "t = [] \<or> \<not> isWhiteSpace (hd t)"
    unfolding t_def by (metis hd_dropWhile)
  have "u = [] \<or> \<not> isWhiteSpace (last u)"
  proof (cases "u = []")
    case True
    then show ?thesis by simp
  next
    case False
    then have "last u = last (rev t)"
      unfolding u_def by (rule last_dropWhile_eq)
    moreover from False have "t \<noteq> []"
      unfolding u_def by auto
    ultimately show ?thesis
      using ht by (simp add: last_rev)
  qed
  then have "rev u = [] \<or> \<not> isWhiteSpace (hd (rev u))"
    by (auto simp: hd_rev)
  then have keep_front: "dropWhile isWhiteSpace (rev u) = rev u"
    by (rule dropWhile_fix)
  have keep_rear: "dropWhile isWhiteSpace u = u"
    unfolding u_def by simp
  have "trim s = rev u"
    by (simp add: trim_def t_def u_def)
  moreover have "trim (rev u) = rev u"
    by (simp add: trim_def keep_front keep_rear)
  ultimately show ?thesis by simp
qed

lemma isDigit_not_ws: "isDigit c \<Longrightarrow> \<not> isWhiteSpace c"
  by (auto simp: isDigit_def isWhiteSpace_def)

lemma matchNonDigit_iff: "matchNonDigit s = (\<not> list_all isDigit s)"
  by (simp add: matchNonDigit_def list_ex_iff list_all_iff)

lemma digits_trim_nonempty: "s \<noteq> [] \<Longrightarrow> list_all isDigit s \<Longrightarrow> trim s \<noteq> []"
  by (cases s) (auto simp: trim_Nil_iff list_all_iff dest: isDigit_not_ws)

lemma space_not_digit: "CHR '' '' \<in> set s \<Longrightarrow> \<not> list_all isDigit s"
proof -
  have "\<not> isDigit (CHR '' '')"
    by (simp add: isDigit_def)
  then show "CHR '' '' \<in> set s \<Longrightarrow> \<not> list_all isDigit s"
    unfolding list_all_iff by blast
qed

section \<open>Form validation\<close>

text \<open>
  Claim C2, as the code has it.  Validation reports \<open>UidAllDigits\<close> exactly for a uid that is
  non-empty and made of the digits 0 to 9 only.  It reports \<open>MissingUid\<close> exactly for a uid
  that is empty after trimming, so also for a uid made of white space only, not only for
  the empty string.
\<close>

theorem validateForm_uid_rules:
  "(validateForm fd = Some UidAllDigits) = (uid fd \<noteq> [] \<and> list_all isDigit (uid fd))
   \<and> (validateForm fd = Some MissingUid) = (trim (uid fd) = [])"
  using digits_trim_nonempty [of "uid fd"]
  by (auto simp: validateForm_def matchNonDigit_iff trim_def split: option.splits)

theorem validateForm_uid_rules_witness:
  "validateForm (initialFormState\<lparr>uid := ''123''\<rparr>) = Some UidAllDigits
   \<and> validateForm (initialFormState\<lparr>uid := [CHR 0x09, CHR '' '']\<rparr>) = Some MissingUid
   \<and> validateForm (initialFormState\<lparr>uid := ''a1''\<rparr>) \<noteq> Some MissingUid"
  using validateForm_uid_rules [of "initialFormState\<lparr>uid := ''123''\<rparr>"]
        validateForm_uid_rules [of "initialFormState\<lparr>uid := [CHR 0x09, CHR '' '']\<rparr>"]
        validateForm_uid_rules [of "initialFormState\<lparr>uid := ''a1''\<rparr>"]
  by (simp add: isDigit_def trim_def isWhiteSpace_def)

text \<open>The uid of one space is not the empty string, and is reported as \<open>MissingUid\<close>.\<close>

theorem validateForm_blank_uid_counterexample:
  "\<not> ((validateForm (initialFormState\<lparr>uid := '' ''\<rparr>) = Some MissingUid)
        = (uid (initialFormState\<lparr>uid := '' ''\<rparr>) = []))"
  by (simp add: validateForm_def trim_def isWhiteSpace_def)

text \<open>
  Claim C3, as the code has it.  Validation reports \<open>UidHasWhitespace\<close> for every uid that
  is not empty after trimming and contains a space character (U+0020); the uid
  \<^verbatim>\<open>12 3\<close> is reported so, whatever the other fields are.
\<close>

theorem validateForm_space:
  "(trim (uid fd) \<noteq> [] \<and> CHR '' '' \<in> set (uid fd) \<longrightarrow> validateForm fd = Some UidHasWhitespace)
   \<and> validateForm (fd\<lparr>uid := ''12 3''\<rparr>) = Some UidHasWhitespace"
proof -
  have rule: "trim (uid g) \<noteq> [] \<and> CHR '' '' \<in> set (uid g) \<longrightarrow> validateForm g = Some UidHasWhitespace"
    for g
    using space_not_digit [of "uid g"]
    by (auto simp: validateForm_def matchNonDigit_iff includes_str_single trim_def)
  have "validateForm (fd\<lparr>uid := ''12 3''\<rparr>) = Some UidHasWhitespace"
    using rule [of "fd\<lparr>uid := ''12 3''\<rparr>"] by (simp add: trim_def isWhiteSpace_def)
  with rule show ?thesis by simp
qed

theorem validateForm_space_witness:
  "validateForm (initialFormState\<lparr>uid := ''john doe''\<rparr>) = Some UidHasWhitespace"
  using validateForm_space [of "initialFormState\<lparr>uid := ''john doe''\<rparr>"]
  by (simp add: trim_def isWhiteSpace_def)

text \<open>A uid of one space is reported as \<open>MissingUid\<close>; the uid \<^verbatim>\<open>a<TAB>b\<close> passes
  validation.\<close>

theorem validateForm_whitespace_counterexample:
  "validateForm (initialFormState\<lparr>uid := '' ''\<rparr>) = Some MissingUid
   \<and> validateForm (initialFormState\<lparr>uid := [CHR ''a'', CHR 0x09, CHR ''b'']\<rparr>) = None"
  by (simp add: validateForm_def trim_def isWhiteSpace_def matchNonDigit_def isDigit_def
                initialFormState_def)

text \<open>
  Claim C7.  A submission that validation rejects, for any of the four reasons, changes
  only the error message and issues no request.  The form with uid \<^verbatim>\<open>abc\<close> and email
  \<^verbatim>\<open>bad\<close> is rejected with \<open>InvalidEmail\<close>.  With an email that is present and non-empty,
  validation reports \<open>InvalidEmail\<close> exactly when the uid passes its three rules and the
  email has no \<^verbatim>\<open>@\<close>.
\<close>

theorem handleSubmit_validation:
  "(validateForm (formData st) = Some e \<longrightarrow>
      handleSubmit parse net st = (st\<lparr>error := Some (error_message e)\<rparr>, [], None))
   \<and> validateForm (fd\<lparr>uid := ''abc'', email := Some ''bad''\<rparr>) = Some InvalidEmail
   \<and> (email fd = Some em \<and> em \<noteq> [] \<longrightarrow>
        (validateForm fd = Some InvalidEmail)
        = (trim (uid fd) \<noteq> [] \<and> \<not> list_all isDigit (uid fd) \<and> CHR '' '' \<notin> set (uid fd)
           \<and> CHR ''@'' \<notin> set em))"
proof (intro conjI impI)
  assume "validateForm (formData st) = Some e"
  then show "handleSubmit parse net st = (st\<lparr>error := Some (error_message e)\<rparr>, [], None)"
    by (simp add: handleSubmit_def)
next
  show "validateForm (fd\<lparr>uid := ''abc'', email := Some ''bad''\<rparr>) = Some InvalidEmail"
    by (simp add: validateForm_def trim_def isWhiteSpace_def matchNonDigit_def isDigit_def)
next
  assume "email fd = Some em \<and> em \<noteq> []"
  then show "(validateForm fd = Some InvalidEmail)
        = (trim (uid fd) \<noteq> [] \<and> \<not> list_all isDigit (uid fd) \<and> CHR '' '' \<notin> set (uid fd)
           \<and> CHR ''@'' \<notin> set em)"
    by (auto simp: validateForm_def matchNonDigit_iff includes_str_single trim_def)
qed

theorem handleSubmit_validation_witness:
  "handleSubmit parse_sample net_no_content
     (initialState\<lparr>formData := initialFormState\<lparr>uid := ''abc'', email := Some ''bad''\<rparr>\<rparr>)
   = (initialState\<lparr>formData := initialFormState\<lparr>uid := ''abc'', email := Some ''bad''\<rparr>,
                    error := Some ''Please enter a valid email address''\<rparr>, [], None)"
  using handleSubmit_validation
          [of "initialState\<lparr>formData := initialFormState\<lparr>uid := ''abc'', email := Some ''bad''\<rparr>\<rparr>"
              InvalidEmail parse_sample net_no_content initialFormState "''bad''"]
  by simp

section \<open>The payload of a create request, property by property\<close>

lemma json_copy_eq_JStr: "(json_copy v = JStr s) = (v = JStr s)"
  by (cases v) auto

lemma map_of_json_copy_props:
  "map_of (json_copy_props d) k =
     (case map_of d k of
        None \<Rightarrow> None
      | Some v \<Rightarrow> if v = JUndefined then None else Some (json_copy v))"
  by (induction d) (auto simp: delete_conv' split: option.splits)

lemma map_of_reduceDirectory:
  "map_of (reduceDirectory d) k =
     (if k = ''directory'' \<and> truthy (getProp d ''directory'')
          \<and> typeof (getProp d ''directory'') = ''object''
      then Some (getMember (getProp d ''directory'') ''name'')
      else map_of d k)"
  by (simp add: reduceDirectory_def Let_def update_conv')

lemma map_of_parseMetadata:
  "map_of (parseMetadata parse d) k =
     (if k = ''metadata'' then
        (case map_of d ''metadata'' of
           Some (JStr s) \<Rightarrow> if s = [] then Some (JStr s) else parse s
         | other \<Rightarrow> other)
      else map_of d k)"
  by (auto simp: parseMetadata_def Let_def getProp_def update_conv' delete_conv'
           split: option.splits jsval.splits)

lemma map_of_checkPicture:
  "map_of (checkPicture d) k =
     (if k = ''picture'' then
        (case map_of d ''picture'' of
           Some (JStr s) \<Rightarrow>
             if s = [] \<or> startsWith s ''data:image'' \<or> startsWith s ''http''
             then Some (JStr s) else None
         | other \<Rightarrow> other)
      else map_of d k)"
  by (auto simp: checkPicture_def Let_def getProp_def delete_conv'
           split: option.splits jsval.splits)

lemma map_of_removeEmptyStep:
  "map_of (removeEmptyStep a d) k =
     (if a = k \<and> isEmptyValue (getProp d k) then None else map_of d k)"
  by (simp add: removeEmptyStep_def delete_conv')

lemma map_of_fold_removeEmptyStep:
  "map_of (fold removeEmptyStep ks d) k =
     (if k \<in> set ks \<and> isEmptyValue (getProp d k) then None else map_of d k)"
proof (induction ks arbitrary: d)
  case Nil
  then show ?case by simp
next
  case (Cons a ks)
  show ?case
    by (auto simp: Cons.IH map_of_removeEmptyStep getProp_def)
qed

lemma map_of_removeEmpty:
  "map_of (removeEmpty d) k =
     (case map_of d k of
        Some v \<Rightarrow> if isEmptyValue v then None else Some v
      | None \<Rightarrow> None)"
proof (cases "map_of d k")
  case None
  then show ?thesis by (simp add: removeEmpty_def map_of_fold_removeEmptyStep)
next
  case (Some v)
  then have "k \<in> set (map fst d)"
    by (metis map_of_eq_None_iff option.distinct(1) set_map)
  with Some show ?thesis
    by (simp add: removeEmpty_def map_of_fold_removeEmptyStep getProp_def)
qed

lemma createUser_requests:
  "fst (createUser parse net userData) =
     [\<lparr>req_method = POST, url = USERS_BASE, body = Some (JObj (userDataToSend parse userData))\<rparr>]"
  by (simp add: createUser_def ApiService_post_def USERS_BASE_def BASE_URL_def Let_def
           split: sum.splits)

lemma createUser_bodies:
  "map body (fst (createUser parse net userData)) = [Some (JObj (userDataToSend parse userData))]"
  by (simp add: createUser_requests)


section \<open>What the service sends\<close>

text \<open>
  Claim C5.  A create request whose \<^verbatim>\<open>picture\<close> is a string sends that string unchanged
  when it begins with \<^verbatim>\<open>data:image\<close> or with \<^verbatim>\<open>http\<close>, and sends no \<^verbatim>\<open>picture\<close>
  otherwise.
\<close>

theorem createUser_picture:
  "map_of userData ''picture'' = Some (JStr s) \<Longrightarrow>
     map body (fst (createUser parse net userData)) = [Some (JObj (userDataToSend parse userData))]
     \<and> map_of (userDataToSend parse userData) ''picture''
         = (if startsWith s ''data:image'' \<or> startsWith s ''http'' then Some (JStr s) else None)"
proof -
  assume pic: "map_of userData ''picture'' = Some (JStr s)"
  have ne: "startsWith s ''data:image'' \<or> startsWith s ''http'' \<Longrightarrow> s \<noteq> []"
    by (cases s) auto
  have "map_of (userDataToSend parse userData) ''picture''
         = (if startsWith s ''data:image'' \<or> startsWith s ''http'' then Some (JStr s) else None)"
    using ne
    by (simp add: userDataToSend_def map_of_removeEmpty map_of_checkPicture map_of_parseMetadata
          map_of_reduceDirectory map_of_json_copy_props pic isEmptyValue_def)
  then show ?thesis
    by (simp add: createUser_bodies)
qed

text \<open>The three pictures of the specification: \<^verbatim>\<open>ftp://x\<close> is not sent, the URL and the
  embedded image are sent as they are.\<close>

theorem createUser_picture_witness:
  "map_of (userDataToSend parse_sample [(''picture'', JStr ''ftp://x'')]) ''picture'' = None
   \<and> map_of (userDataToSend parse_sample [(''picture'', JStr ''https://x.png'')]) ''picture''
       = Some (JStr ''https://x.png'')
   \<and> map_of (userDataToSend parse_sample [(''picture'', JStr ''data:image/png;base64,AAA'')])
         ''picture''
       = Some (JStr ''data:image/png;base64,AAA'')"
  using createUser_picture [of "[(''picture'', JStr ''ftp://x'')]" "''ftp://x''" parse_sample net_no_content]
        createUser_picture [of "[(''picture'', JStr ''https://x.png'')]" "''https://x.png''" parse_sample net_no_content]
        createUser_picture [of "[(''picture'', JStr ''data:image/png;base64,AAA'')]"
                               "''data:image/png;base64,AAA''" parse_sample net_no_content]
  by simp

text \<open>An update or a patch whose directory is the structured reference with id 1 and name
  \<^verbatim>\<open>eng\<close> sends that object, not the string \<^verbatim>\<open>eng\<close>; a create request whose directory is
  a structured reference with an empty name sends no directory.\<close>

theorem updateUser_directory_counterexample:
  "map body (fst (updateUser net_no_content ''u1''
      [(''directory'', JObj [(''id'', JNum 1), (''name'', JStr ''eng'')])]))
     = [Some (JObj [(''directory'', JObj [(''id'', JNum 1), (''name'', JStr ''eng'')])])]
   \<and> map body (fst (patchUser net_no_content ''u1''
      [(''directory'', JObj [(''id'', JNum 1), (''name'', JStr ''eng'')])]))
     = [Some (JObj [(''directory'', JObj [(''id'', JNum 1), (''name'', JStr ''eng'')])])]
   \<and> map body (fst (createUser parse_sample net_no_content
      [(''uid'', JStr ''a1''), (''directory'', JObj [(''id'', JNum 1), (''name'', JStr [])])]))
     = [Some (JObj [(''uid'', JStr ''a1'')])]"
  by (simp add: updateUser_def patchUser_def ApiService_put_def ApiService_patch_def
        wrapDirectory_def getProp_def Let_def createUser_bodies userDataToSend_def
        reduceDirectory_def parseMetadata_def checkPicture_def removeEmpty_def
        removeEmptyStep_def isEmptyValue_def)

lemma wrapDirectory_object:
  "map_of userData ''directory'' = Some (JObj dir) \<Longrightarrow> wrapDirectory userData = userData"
  by (simp add: wrapDirectory_def getProp_def)

lemma wrapDirectory_string:
  "map_of userData ''directory'' = Some (JStr s) \<Longrightarrow> s \<noteq> [] \<Longrightarrow>
     wrapDirectory userData = AList.update ''directory'' (JObj [(''name'', JStr s)]) userData"
  by (simp add: wrapDirectory_def getProp_def)

lemma updateUser_bodies:
  "map body (fst (updateUser net userId userData)) = [Some (JObj (wrapDirectory userData))]"
  by (simp add: updateUser_def ApiService_put_def Let_def)

lemma patchUser_bodies:
  "map body (fst (patchUser net userId userData)) = [Some (JObj (wrapDirectory userData))]"
  by (simp add: patchUser_def ApiService_patch_def Let_def)

lemma createUser_directory_object:
  assumes "map_of userData ''directory'' = Some (JObj dir)"
    and "map_of dir ''name'' = Some (JStr n)"
  shows "map_of (userDataToSend parse userData) ''directory''
           = (if n = [] then None else Some (JStr n))"
  using assms
  by (simp add: userDataToSend_def map_of_removeEmpty map_of_checkPicture map_of_parseMetadata
        map_of_reduceDirectory map_of_json_copy_props getProp_def isEmptyValue_def)

text \<open>
  Claim C1, as the code has it.  A create request whose directory is an object with a
  string \<^verbatim>\<open>name\<close> sends that name in its place, and sends no directory when the name is
  empty.  An update or a patch sends an object directory as it is, and sends a non-empty
  string directory \<open>s\<close> wrapped into the object with the one property \<^verbatim>\<open>name\<close> of value
  \<open>s\<close>.
\<close>

theorem directory_on_write:
  "(map_of userData ''directory'' = Some (JObj dir) \<and> map_of dir ''name'' = Some (JStr n) \<longrightarrow>
      map body (fst (createUser parse net userData)) = [Some (JObj (userDataToSend parse userData))]
      \<and> map_of (userDataToSend parse userData) ''directory''
          = (if n = [] then None else Some (JStr n)))
   \<and> (map_of userData ''directory'' = Some (JObj dir) \<longrightarrow>
      map body (fst (updateUser net userId userData)) = [Some (JObj userData)]
      \<and> map body (fst (patchUser net userId userData)) = [Some (JObj userData)])
   \<and> (map_of userData ''directory'' = Some (JStr s) \<and> s \<noteq> [] \<longrightarrow>
      map body (fst (updateUser net userId userData))
        = [Some (JObj (AList.update ''directory'' (JObj [(''name'', JStr s)]) userData))]
      \<and> map body (fst (patchUser net userId userData))
        = [Some (JObj (AList.update ''directory'' (JObj [(''name'', JStr s)]) userData))])"
  by (simp add: createUser_bodies createUser_directory_object updateUser_bodies patchUser_bodies
        wrapDirectory_object wrapDirectory_string)

theorem directory_on_write_witness:
  "map_of (userDataToSend parse_sample [(''directory'', JObj [(''id'', JNum 1), (''name'', JStr ''eng'')])])
     ''directory'' = Some (JStr ''eng'')
   \<and> map body (fst (patchUser net_no_content ''u1''
        [(''directory'', JObj [(''id'', JNum 1), (''name'', JStr ''eng'')])]))
      = [Some (JObj [(''directory'', JObj [(''id'', JNum 1), (''name'', JStr ''eng'')])])]
   \<and> map body (fst (updateUser net_no_content ''u1'' [(''directory'', JStr ''eng'')]))
      = [Some (JObj [(''directory'', JObj [(''name'', JStr ''eng'')])])]"
  using directory_on_write [of "[(''directory'', JObj [(''id'', JNum 1), (''name'', JStr ''eng'')])]"
          "[(''id'', JNum 1), (''name'', JStr ''eng'')]" "''eng''" parse_sample net_no_content
          "''u1''" "''x''"]
        directory_on_write [of "[(''directory'', JStr ''eng'')]" "[]" "''''" parse_sample
          net_no_content "''u1''" "''eng''"]
  by simp

section \<open>The metadata of a create request\<close>

lemma createUser_result:
  "snd (createUser parse net userData) =
     (case net \<lparr>req_method = POST, url = USERS_BASE, body = Some (JObj (userDataToSend parse userData))\<rparr> of
        Inl msg \<Rightarrow> Inl (''Failed to create user: '' @ msg)
      | Inr response \<Rightarrow> Inr response)"
  by (simp add: createUser_def ApiService_post_def USERS_BASE_def BASE_URL_def Let_def
           split: sum.splits)

lemma createUser_metadata_string:
  assumes "map_of userData ''metadata'' = Some (JStr s)" and "s \<noteq> []"
  shows "map_of (userDataToSend parse userData) ''metadata''
           = (case parse s of
                Some v \<Rightarrow> if isEmptyValue v then None else Some v
              | None \<Rightarrow> None)"
  using assms
  by (simp add: userDataToSend_def map_of_removeEmpty map_of_checkPicture map_of_parseMetadata
        map_of_reduceDirectory map_of_json_copy_props)

lemma map_of_textField:
  "map_of (textField k f) k' =
     (if k' = k then
        (case f of Some s \<Rightarrow> if trim s = [] then None else Some (JStr (trim s)) | None \<Rightarrow> None)
      else None)"
  by (auto simp: textField_def trim_def split: option.splits)

lemma cleanedData_metadata:
  "map_of (cleanedData fd) ''metadata''
     = (case metadata fd of Some m \<Rightarrow> if m = [] then None else Some (JObj m) | None \<Rightarrow> None)"
  by (simp add: cleanedData_def map_of_textField map_add_def split: option.splits)

lemma cleanedData_directory:
  "map_of (cleanedData fd) ''directory''
     = (case directory fd of
          Some s \<Rightarrow> if trim s = [] then None else Some (JStr (trim s))
        | None \<Rightarrow> None)"
  by (simp add: cleanedData_def map_of_textField map_add_def split: option.splits)


text \<open>A submission that passes validation posts the cleaned form, normalised by
  \<^verbatim>\<open>createUser\<close>.\<close>

lemma handleSubmit_requests:
  "validateForm (formData st) = None \<Longrightarrow>
     map body (fst (snd (handleSubmit parse net st)))
       = [Some (JObj (userDataToSend parse (cleanedData (formData st))))]"
proof -
  assume ok: "validateForm (formData st) = None"
  obtain reqs res where cu: "createUser parse net (cleanedData (formData st)) = (reqs, res)"
    by (cases "createUser parse net (cleanedData (formData st))")
  have "map body reqs = [Some (JObj (userDataToSend parse (cleanedData (formData st))))]"
    using createUser_bodies [of parse net "cleanedData (formData st)"] cu by simp
  then show ?thesis
    using ok cu by (simp add: handleSubmit_def split: sum.splits)
qed

text \<open>
  Claim C6, as the code has it.  A create request whose \<^verbatim>\<open>metadata\<close> is a non-empty string
  sends the value that the string parses to, unless that value is \<^verbatim>\<open>null\<close> or the empty
  string, which the removal of empty fields drops; it sends no \<^verbatim>\<open>metadata\<close> when the
  string does not parse, and the outcome of the call is that of the transport alone, so
  no error comes from the parse.  The test for a key is made by the form: a submission
  sends its metadata exactly when the form's metadata have a key.
\<close>

theorem createUser_metadata:
  "(map_of userData ''metadata'' = Some (JStr s) \<and> s \<noteq> [] \<longrightarrow>
      map body (fst (createUser parse net userData)) = [Some (JObj (userDataToSend parse userData))]
      \<and> map_of (userDataToSend parse userData) ''metadata''
          = (case parse s of
               Some v \<Rightarrow> if v = JStr [] \<or> v = JNull \<or> v = JUndefined then None else Some v
             | None \<Rightarrow> None)
      \<and> snd (createUser parse net userData)
          = (case net \<lparr>req_method = POST, url = USERS_BASE,
                        body = Some (JObj (userDataToSend parse userData))\<rparr> of
               Inl msg \<Rightarrow> Inl (''Failed to create user: '' @ msg)
             | Inr response \<Rightarrow> Inr response))
   \<and> map_of (userDataToSend parse (cleanedData fd)) ''metadata''
       = (case metadata fd of
            Some m \<Rightarrow> if m = [] then None else Some (JObj (json_copy_props m))
          | None \<Rightarrow> None)"
proof (intro conjI impI)
  assume a: "map_of userData ''metadata'' = Some (JStr s) \<and> s \<noteq> []"
  show "map body (fst (createUser parse net userData)) = [Some (JObj (userDataToSend parse userData))]"
    by (rule createUser_bodies)
  show "map_of (userDataToSend parse userData) ''metadata''
          = (case parse s of
               Some v \<Rightarrow> if v = JStr [] \<or> v = JNull \<or> v = JUndefined then None else Some v
             | None \<Rightarrow> None)"
    using a createUser_metadata_string [of userData s parse]
    by (simp add: isEmptyValue_def split: option.splits)
  show "snd (createUser parse net userData)
          = (case net \<lparr>req_method = POST, url = USERS_BASE,
                        body = Some (JObj (userDataToSend parse userData))\<rparr> of
               Inl msg \<Rightarrow> Inl (''Failed to create user: '' @ msg)
             | Inr response \<Rightarrow> Inr response)"
    by (rule createUser_result)
next
  show "map_of (userDataToSend parse (cleanedData fd)) ''metadata''
       = (case metadata fd of
            Some m \<Rightarrow> if m = [] then None else Some (JObj (json_copy_props m))
          | None \<Rightarrow> None)"
    by (simp add: userDataToSend_def map_of_removeEmpty map_of_checkPicture map_of_parseMetadata
          map_of_reduceDirectory map_of_json_copy_props cleanedData_metadata isEmptyValue_def
          split: option.splits)
qed

theorem createUser_metadata_witness:
  "map_of (userDataToSend parse_sample [(''uid'', JStr ''a1''), (''metadata'', JStr ''{}'')]) ''metadata''
     = Some (JObj [])
   \<and> map_of (userDataToSend parse_sample [(''uid'', JStr ''a1''), (''metadata'', JStr ''not json'')])
        ''metadata'' = None
   \<and> snd (createUser parse_sample net_no_content
        [(''uid'', JStr ''a1''), (''metadata'', JStr ''not json'')]) = Inr (JObj [])
   \<and> map_of (userDataToSend parse_sample
        (cleanedData (initialFormState\<lparr>uid := ''a1'', metadata := Some [(''k'', JStr ''v'')]\<rparr>)))
        ''metadata'' = Some (JObj [(''k'', JStr ''v'')])
   \<and> map_of (userDataToSend parse_sample (cleanedData (initialFormState\<lparr>uid := ''a1''\<rparr>)))
        ''metadata'' = None"
  using createUser_metadata [of "[(''uid'', JStr ''a1''), (''metadata'', JStr ''{}'')]" "''{}''"
          parse_sample net_no_content
          "initialFormState\<lparr>uid := ''a1'', metadata := Some [(''k'', JStr ''v'')]\<rparr>"]
        createUser_metadata [of "[(''uid'', JStr ''a1''), (''metadata'', JStr ''not json'')]"
          "''not json''" parse_sample net_no_content "initialFormState\<lparr>uid := ''a1''\<rparr>"]
  by (simp add: parse_sample_def net_no_content_def initialFormState_def)

text \<open>The metadata string \<^verbatim>\<open>{}\<close> parses to the object without keys, which is sent; the
  string \<^verbatim>\<open>null\<close> parses, and no metadata are sent.\<close>

theorem createUser_metadata_counterexample:
  "map body (fst (createUser parse_sample net_no_content
      [(''uid'', JStr ''a1''), (''metadata'', JStr ''{}'')]))
     = [Some (JObj [(''uid'', JStr ''a1''), (''metadata'', JObj [])])]
   \<and> map body (fst (createUser parse_sample net_no_content
      [(''uid'', JStr ''a1''), (''metadata'', JStr ''null'')]))
     = [Some (JObj [(''uid'', JStr ''a1'')])]"
  by (simp add: createUser_bodies userDataToSend_def reduceDirectory_def parseMetadata_def
        checkPicture_def removeEmpty_def removeEmptyStep_def isEmptyValue_def getProp_def
        parse_sample_def)


section \<open>The payload of a submission\<close>

lemma set_textField: "(k', v) \<in> set (textField k f) \<Longrightarrow> \<exists>s. v = JStr (trim s)"
  by (auto simp: textField_def split: option.splits if_splits)

lemma cleanedData_values:
  assumes "(k, v) \<in> set (cleanedData fd)"
  shows "(\<exists>s. v = JStr (trim s)) \<or> (\<exists>ts. v = JArr ts) \<or> (\<exists>m. v = JObj m)"
  using assms unfolding cleanedData_def
  by (auto dest!: set_textField split: option.splits if_splits)

lemma cleanedData_lookup_values:
  assumes "map_of (cleanedData fd) k = Some v"
  shows "(\<exists>s. v = JStr (trim s)) \<or> (\<exists>ts. v = JArr ts) \<or> (\<exists>m. v = JObj m)"
  using cleanedData_values [OF map_of_SomeD [OF assms]] .

lemma cleanedData_picture:
  "map_of (cleanedData fd) ''picture'' = trimmedOrOmitted (picture fd)"
  by (simp add: cleanedData_def map_of_textField map_add_def trimmedOrOmitted_def
           split: option.splits)

lemma copied_cleanedData:
  "map_of (json_copy_props (cleanedData fd)) k = map_option json_copy (map_of (cleanedData fd) k)"
proof (cases "map_of (cleanedData fd) k")
  case None
  then show ?thesis by (simp add: map_of_json_copy_props)
next
  case (Some v)
  with cleanedData_lookup_values [OF Some] show ?thesis
    by (auto simp: map_of_json_copy_props)
qed

lemma reduced_cleanedData:
  "map_of (reduceDirectory (json_copy_props (cleanedData fd))) k
     = map_option json_copy (map_of (cleanedData fd) k)"
  by (simp add: map_of_reduceDirectory getProp_def copied_cleanedData cleanedData_directory
           split: option.splits)

lemma parsed_cleanedData:
  "map_of (parseMetadata parse (reduceDirectory (json_copy_props (cleanedData fd)))) k
     = map_option json_copy (map_of (cleanedData fd) k)"
  by (simp add: map_of_parseMetadata reduced_cleanedData cleanedData_metadata
           split: option.splits)

lemma checked_cleanedData:
  "map_of (checkPicture (parseMetadata parse (reduceDirectory (json_copy_props (cleanedData fd))))) k
     = (if k = ''picture'' then
          (case picture fd of
             Some s \<Rightarrow>
               if trim s \<noteq> [] \<and> (startsWith (trim s) ''data:image'' \<or> startsWith (trim s) ''http'')
               then Some (JStr (trim s)) else None
           | None \<Rightarrow> None)
        else map_option json_copy (map_of (cleanedData fd) k))"
  by (simp add: map_of_checkPicture parsed_cleanedData cleanedData_picture trimmedOrOmitted_def
           split: option.splits)

lemma sent_string_of_cleanedData:
  assumes "map_of (userDataToSend parse (cleanedData fd)) k = Some (JStr t)"
  shows "trim t \<noteq> []"
proof -
  let ?c = "checkPicture (parseMetadata parse (reduceDirectory (json_copy_props (cleanedData fd))))"
  from assms have kept: "map_of ?c k = Some (JStr t)" and ne: "t \<noteq> []"
    by (auto simp: userDataToSend_def map_of_removeEmpty isEmptyValue_def
             split: option.splits if_splits)
  have "\<exists>s. t = trim s"
  proof (cases "k = ''picture''")
    case True
    with kept show ?thesis
      by (auto simp: checked_cleanedData split: option.splits if_splits)
  next
    case False
    with kept obtain v where v: "map_of (cleanedData fd) k = Some v" and "json_copy v = JStr t"
      by (auto simp: checked_cleanedData)
    then have "v = JStr t"
      by (simp add: json_copy_eq_JStr)
    with cleanedData_lookup_values [OF v] show ?thesis by auto
  qed
  then obtain s where "t = trim s" ..
  with ne show ?thesis by (simp add: trim_idem)
qed

lemma sent_never_null:
  "map_of (userDataToSend parse userData) k \<noteq> Some JNull"
  by (simp add: userDataToSend_def map_of_removeEmpty isEmptyValue_def split: option.splits)

lemma sent_text_field:
  assumes "k \<noteq> ''picture''" and "map_of (cleanedData fd) k = trimmedOrOmitted f"
  shows "map_of (userDataToSend parse (cleanedData fd)) k = trimmedOrOmitted f"
  using assms
  by (simp add: userDataToSend_def map_of_removeEmpty checked_cleanedData trimmedOrOmitted_def
        isEmptyValue_def split: option.splits)

lemma cleanedData_text_fields:
  "map_of (cleanedData fd) ''uid'' = Some (JStr (trim (uid fd)))"
  "map_of (cleanedData fd) ''name'' = trimmedOrOmitted (name fd)"
  "map_of (cleanedData fd) ''given_name'' = trimmedOrOmitted (given_name fd)"
  "map_of (cleanedData fd) ''middle_name'' = trimmedOrOmitted (middle_name fd)"
  "map_of (cleanedData fd) ''family_name'' = trimmedOrOmitted (family_name fd)"
  "map_of (cleanedData fd) ''nickname'' = trimmedOrOmitted (nickname fd)"
  "map_of (cleanedData fd) ''email'' = trimmedOrOmitted (email fd)"
  "map_of (cleanedData fd) ''phone_number'' = trimmedOrOmitted (phone_number fd)"
  "map_of (cleanedData fd) ''comment'' = trimmedOrOmitted (comment fd)"
  "map_of (cleanedData fd) ''directory'' = trimmedOrOmitted (directory fd)"
  by (simp_all add: cleanedData_def map_of_textField map_add_def trimmedOrOmitted_def
           split: option.splits)

lemma sent_uid:
  "map_of (userDataToSend parse (cleanedData fd)) ''uid'' = trimmedOrOmitted (Some (uid fd))"
  by (simp add: userDataToSend_def map_of_removeEmpty checked_cleanedData trimmedOrOmitted_def
        isEmptyValue_def cleanedData_text_fields(1))


text \<open>
  Claim C4.  The payload of a submission (the cleaning of \<^verbatim>\<open>handleSubmit\<close>, then the
  normalisation of \<^verbatim>\<open>createUser\<close>) is what a valid submission posts.  For every form,
  none of its string properties is empty after trimming and none of its properties is
  \<^verbatim>\<open>null\<close>; the uid and every free-text field is sent trimmed, and is absent when nothing
  remains after trimming.
\<close>

theorem submit_payload_trimmed:
  "(validateForm (formData st) = None \<longrightarrow>
      map body (fst (snd (handleSubmit parse net st)))
        = [Some (JObj (userDataToSend parse (cleanedData (formData st))))])
   \<and> (\<forall>k t. map_of (userDataToSend parse (cleanedData fd)) k = Some (JStr t) \<longrightarrow> trim t \<noteq> [])
   \<and> (\<forall>k. map_of (userDataToSend parse (cleanedData fd)) k \<noteq> Some JNull)
   \<and> map_of (userDataToSend parse (cleanedData fd)) ''uid'' = trimmedOrOmitted (Some (uid fd))
   \<and> map_of (userDataToSend parse (cleanedData fd)) ''name'' = trimmedOrOmitted (name fd)
   \<and> map_of (userDataToSend parse (cleanedData fd)) ''given_name'' = trimmedOrOmitted (given_name fd)
   \<and> map_of (userDataToSend parse (cleanedData fd)) ''middle_name'' = trimmedOrOmitted (middle_name fd)
   \<and> map_of (userDataToSend parse (cleanedData fd)) ''family_name'' = trimmedOrOmitted (family_name fd)
   \<and> map_of (userDataToSend parse (cleanedData fd)) ''nickname'' = trimmedOrOmitted (nickname fd)
   \<and> map_of (userDataToSend parse (cleanedData fd)) ''email'' = trimmedOrOmitted (email fd)
   \<and> map_of (userDataToSend parse (cleanedData fd)) ''phone_number'' = trimmedOrOmitted (phone_number fd)
   \<and> map_of (userDataToSend parse (cleanedData fd)) ''comment'' = trimmedOrOmitted (comment fd)
   \<and> map_of (userDataToSend parse (cleanedData fd)) ''directory'' = trimmedOrOmitted (directory fd)"
proof -
  have sent: "validateForm (formData st) = None \<longrightarrow>
      map body (fst (snd (handleSubmit parse net st)))
        = [Some (JObj (userDataToSend parse (cleanedData (formData st))))]"
    by (simp add: handleSubmit_requests)
  have strings: "\<forall>k t. map_of (userDataToSend parse (cleanedData fd)) k = Some (JStr t) \<longrightarrow> trim t \<noteq> []"
    using sent_string_of_cleanedData by blast
  have nulls: "\<forall>k. map_of (userDataToSend parse (cleanedData fd)) k \<noteq> Some JNull"
    by (simp add: sent_never_null)
  have fields:
    "map_of (userDataToSend parse (cleanedData fd)) ''name'' = trimmedOrOmitted (name fd)"
    "map_of (userDataToSend parse (cleanedData fd)) ''given_name'' = trimmedOrOmitted (given_name fd)"
    "map_of (userDataToSend parse (cleanedData fd)) ''middle_name'' = trimmedOrOmitted (middle_name fd)"
    "map_of (userDataToSend parse (cleanedData fd)) ''family_name'' = trimmedOrOmitted (family_name fd)"
    "map_of (userDataToSend parse (cleanedData fd)) ''nickname'' = trimmedOrOmitted (nickname fd)"
    "map_of (userDataToSend parse (cleanedData fd)) ''email'' = trimmedOrOmitted (email fd)"
    "map_of (userDataToSend parse (cleanedData fd)) ''phone_number'' = trimmedOrOmitted (phone_number fd)"
    "map_of (userDataToSend parse (cleanedData fd)) ''comment'' = trimmedOrOmitted (comment fd)"
    "map_of (userDataToSend parse (cleanedData fd)) ''directory'' = trimmedOrOmitted (directory fd)"
    by (simp_all add: sent_text_field cleanedData_text_fields)
  show ?thesis
    using sent strings nulls sent_uid [of parse fd] fields by blast
qed

theorem submit_payload_trimmed_witness:
  "map body (fst (snd (handleSubmit parse_sample net_no_content
      (initialState\<lparr>formData := initialFormState\<lparr>uid := ''a1''\<rparr>\<rparr>))))
     = [Some (JObj [(''uid'', JStr ''a1'')])]
   \<and> map_of (userDataToSend parse_sample
        (cleanedData (initialFormState\<lparr>uid := '' a1 '', name := Some ''  '', email := Some '' a@b.c ''\<rparr>)))
        ''email'' = Some (JStr ''a@b.c'')
   \<and> map_of (userDataToSend parse_sample
        (cleanedData (initialFormState\<lparr>uid := '' a1 '', name := Some ''  '', email := Some '' a@b.c ''\<rparr>)))
        ''name'' = None
   \<and> map_of (userDataToSend parse_sample
        (cleanedData (initialFormState\<lparr>uid := '' a1 '', name := Some ''  '', email := Some '' a@b.c ''\<rparr>)))
        ''uid'' = Some (JStr ''a1'')"
  using submit_payload_trimmed
          [of "initialState\<lparr>formData := initialFormState\<lparr>uid := ''a1''\<rparr>\<rparr>" parse_sample net_no_content
              "initialFormState\<lparr>uid := '' a1 '', name := Some ''  '', email := Some '' a@b.c ''\<rparr>"]
  by (simp add: trimmedOrOmitted_def trim_def isWhiteSpace_def validateForm_def matchNonDigit_def
        isDigit_def initialFormState_def initialState_def userDataToSend_def cleanedData_def
        textField_def reduceDirectory_def parseMetadata_def checkPicture_def removeEmpty_def
        removeEmptyStep_def isEmptyValue_def getProp_def)

section \<open>Search, image upload and listing\<close>

text \<open>
  Claim C8.  The search keeps, in order, exactly the users for which the lower-cased query
  occurs in the lower-cased uid, or in the lower-cased name or email where that field is
  present; the empty query keeps every user; on the list of \<^verbatim>\<open>john_doe\<close> and \<^verbatim>\<open>jane\<close> the
  query \<^verbatim>\<open>john\<close> keeps \<^verbatim>\<open>john_doe\<close> alone.
\<close>

theorem filteredUsers_spec:
  "filteredUsers users q
     = filter (\<lambda>u. sublist (toLowerCase q) (toLowerCase (user_uid u))
                  \<or> (\<exists>n. user_name u = Some n \<and> sublist (toLowerCase q) (toLowerCase n))
                  \<or> (\<exists>e. user_email u = Some e \<and> sublist (toLowerCase q) (toLowerCase e))) users
   \<and> filteredUsers users '''' = users
   \<and> filteredUsers
        [\<lparr>user_uid = ''john_doe'', user_name = None, user_email = Some ''john@x.com''\<rparr>,
         \<lparr>user_uid = ''jane'', user_name = None, user_email = None\<rparr>] ''john''
       = [\<lparr>user_uid = ''john_doe'', user_name = None, user_email = Some ''john@x.com''\<rparr>]"
proof (intro conjI)
  show "filteredUsers users q
     = filter (\<lambda>u. sublist (toLowerCase q) (toLowerCase (user_uid u))
                  \<or> (\<exists>n. user_name u = Some n \<and> sublist (toLowerCase q) (toLowerCase n))
                  \<or> (\<exists>e. user_email u = Some e \<and> sublist (toLowerCase q) (toLowerCase e))) users"
    unfolding filteredUsers_def
    by (rule filter_cong) (auto simp: matchesSearch_def includes_str_sublist Let_def split: option.splits)
  show "filteredUsers users '''' = users"
    by (simp add: filteredUsers_def matchesSearch_def toLowerCase_def includes_str_Nil)
  show "filteredUsers
        [\<lparr>user_uid = ''john_doe'', user_name = None, user_email = Some ''john@x.com''\<rparr>,
         \<lparr>user_uid = ''jane'', user_name = None, user_email = None\<rparr>] ''john''
       = [\<lparr>user_uid = ''john_doe'', user_name = None, user_email = Some ''john@x.com''\<rparr>]"
    by (simp add: filteredUsers_def matchesSearch_def toLowerCase_def toLowerChar_def)
qed

theorem filteredUsers_spec_witness:
  "filteredUsers
     [\<lparr>user_uid = ''john_doe'', user_name = None, user_email = Some ''john@x.com''\<rparr>,
      \<lparr>user_uid = ''jane'', user_name = None, user_email = None\<rparr>] ''''
   = [\<lparr>user_uid = ''john_doe'', user_name = None, user_email = Some ''john@x.com''\<rparr>,
      \<lparr>user_uid = ''jane'', user_name = None, user_email = None\<rparr>]"
  using filteredUsers_spec
          [of "[\<lparr>user_uid = ''john_doe'', user_name = None, user_email = Some ''john@x.com''\<rparr>,
                \<lparr>user_uid = ''jane'', user_name = None, user_email = None\<rparr>]" "''john''"]
  by simp

text \<open>
  Claim C9.  When the upload handler rejects a file, for a media type that does not match
  or for a size above 5 * 1024 * 1024 bytes, the state is the old one with the error
  message set: the form data, and the picture in them, and the preview are unchanged.
\<close>

theorem handleImageUpload_rejects:
  "\<not> matchImage (file_type file) \<or> file_size file > 5 * 1024 * 1024 \<Longrightarrow>
     handleImageUpload st (Some file) readResult
       = st\<lparr>error := Some (if \<not> matchImage (file_type file) then ''Please select an image file''
                            else ''Image size should be less than 5MB'')\<rparr>
     \<and> formData (handleImageUpload st (Some file) readResult) = formData st
     \<and> imagePreview (handleImageUpload st (Some file) readResult) = imagePreview st"
  by (auto simp: handleImageUpload_def)

theorem handleImageUpload_rejects_witness:
  "formData (handleImageUpload
       (initialState\<lparr>formData := initialFormState\<lparr>picture := Some ''https://x.png''\<rparr>\<rparr>)
       (Some \<lparr>file_type = ''application/pdf'', file_size = 10\<rparr>) (Some ''data:application/pdf;base64,AAA''))
     = initialFormState\<lparr>picture := Some ''https://x.png''\<rparr>
   \<and> handleImageUpload initialState (Some \<lparr>file_type = ''image/png'', file_size = 5242881\<rparr>)
         (Some ''data:image/png;base64,AAA'')
     = initialState\<lparr>error := Some ''Image size should be less than 5MB''\<rparr>"
  using handleImageUpload_rejects
          [of "\<lparr>file_type = ''application/pdf'', file_size = 10\<rparr>"
              "initialState\<lparr>formData := initialFormState\<lparr>picture := Some ''https://x.png''\<rparr>\<rparr>"
              "Some ''data:application/pdf;base64,AAA''"]
        handleImageUpload_rejects
          [of "\<lparr>file_type = ''image/png'', file_size = 5242881\<rparr>" initialState
              "Some ''data:image/png;base64,AAA''"]
  by (simp add: matchImage_def)

text \<open>
  Claim C10.  On an envelope, \<^verbatim>\<open>getAllUsers\<close> returns the \<^verbatim>\<open>data\<close> of the envelope when they
  are truthy, and the empty list when they are absent, \<^verbatim>\<open>null\<close> or falsy otherwise; the
  other properties of the envelope play no part.
\<close>

theorem getAllUsers_envelope:
  "net \<lparr>req_method = GET, url = getAllUsers_url take_opt, body = None\<rparr> = Inr (JObj envelope) \<Longrightarrow>
     snd (getAllUsers net take_opt)
       = Inr (case map_of envelope ''data'' of
                Some d \<Rightarrow> if truthy d then d else JArr []
              | None \<Rightarrow> JArr [])
     \<and> (map_of envelope ''data'' \<in> {None, Some JNull, Some JUndefined, Some (JBool False),
                                      Some (JNum 0), Some (JStr [])}
          \<longrightarrow> snd (getAllUsers net take_opt) = Inr (JArr []))
     \<and> (\<forall>us. map_of envelope ''data'' = Some (JArr us)
          \<longrightarrow> snd (getAllUsers net take_opt) = Inr (JArr us))"
  by (auto simp: getAllUsers_def ApiService_get_def getProp_def Let_def split: option.splits)

theorem getAllUsers_envelope_witness:
  "snd (getAllUsers
     (\<lambda>r. Inr (JObj [(''data'', JArr [JObj [(''uid'', JStr ''jane'')]]), (''start'', JNum 0),
                      (''end'', JNum 0), (''count'', JNum 1)])) None)
     = Inr (JArr [JObj [(''uid'', JStr ''jane'')]])
   \<and> snd (getAllUsers (\<lambda>r. Inr (JObj [(''data'', JNull), (''count'', JNum 0)])) (Some 5))
     = Inr (JArr [])
   \<and> snd (getAllUsers net_no_content None) = Inr (JArr [])"
  using getAllUsers_envelope
          [of "\<lambda>r. Inr (JObj [(''data'', JArr [JObj [(''uid'', JStr ''jane'')]]), (''start'', JNum 0),
                      (''end'', JNum 0), (''count'', JNum 1)])" None
              "[(''data'', JArr [JObj [(''uid'', JStr ''jane'')]]), (''start'', JNum 0),
                      (''end'', JNum 0), (''count'', JNum 1)]"]
        getAllUsers_envelope
          [of "\<lambda>r. Inr (JObj [(''data'', JNull), (''count'', JNum 0)])" "Some 5"
              "[(''data'', JNull), (''count'', JNum 0)]"]
        getAllUsers_envelope [of net_no_content None "[]"]
  by (simp add: net_no_content_def)

end
